theory Spec2Isabelle
  imports Main "HOL-Library.Log_Nat"
begin

section \<open>Python numbers\<close>

text \<open>
  The image processors compute sizes with Python's \<^verbatim>\<open>/\<close> (true division, a binary64
  float), \<^verbatim>\<open>*\<close> between an int and a float, \<^verbatim>\<open>int(...)\<close> (truncation) and
  \<^verbatim>\<open>//\<close> (floor division on ints). A float is modelled by the rational number it
  denotes. Every float operation returns the exact result rounded to the nearest float,
  ties to even: \<open>fl\<close> is that rounding for a 53-bit significand. The exponent range of
  binary64 (overflow above \<open>2 ^ 1024\<close>, subnormals below \<open>2 ^ - 1022\<close>) is not modelled: all
  values here lie between \<open>2 ^ - 60\<close> and \<open>2 ^ 60\<close>.
\<close>

definition rne :: "rat \<Rightarrow> int" where
  "rne x = (let f = \<lfloor>x\<rfloor>; r = x - of_int f in
     if r < 1/2 then f else if 1/2 < r then f + 1 else if even f then f else f + 1)"

definition bexp :: "rat \<Rightarrow> int" where
  "bexp x = (let (p, q) = quotient_of \<bar>x\<bar>; d = bitlen p - bitlen q in
     if 2 powi d \<le> \<bar>x\<bar> then d else d - 1)"

definition fl :: "rat \<Rightarrow> rat" where
  "fl x = (if x = 0 then 0 else
     let u = 2 powi (bexp x - 52) in of_int (rne (x / u)) * u)"


text \<open>\<^verbatim>\<open>int(x)\<close> truncates towards zero.\<close>

definition py_int :: "rat \<Rightarrow> int" where
  "py_int x = (if 0 \<le> x then \<lfloor>x\<rfloor> else \<lceil>x\<rceil>)"

text \<open>\<^verbatim>\<open>a / b\<close> on two ints: the correctly rounded quotient.\<close>

definition truediv :: "int \<Rightarrow> int \<Rightarrow> rat" where
  "truediv a b = fl (of_int a / of_int b)"

datatype py_error =
    FileNotFoundError
  | UnidentifiedImageError
  | ValueError string
  | OSError string
  | KeyError string
  | SystemError string
  | ZeroDivisionError
  | RequestException

section \<open>Sizes and crop boxes\<close>

subsection \<open>AIImageProcessor.resize\_image (ai\_apis.py), the size it requests\<close>

text \<open>
  \<^verbatim>\<open>aspect_ratio = original_width / original_height\<close>, then the branch on
  \<^verbatim>\<open>width / height > aspect_ratio\<close>. A division by zero raises.
\<close>

definition ai_resize_dims :: "int \<Rightarrow> int \<Rightarrow> int \<Rightarrow> int \<Rightarrow> py_error + int \<times> int" where
  "ai_resize_dims original_width original_height width height =
     (if original_height = 0 then Inl ZeroDivisionError
      else let aspect_ratio = truediv original_width original_height in
        if height = 0 then Inl ZeroDivisionError
        else if aspect_ratio < truediv width height
          then Inr (py_int (fl (of_int height * aspect_ratio)), height)
        else if aspect_ratio = 0 then Inl ZeroDivisionError
        else Inr (width, py_int (fl (of_int width / aspect_ratio))))"

subsection \<open>SimpleImageProcessor.resize\_image (image\_processor.py), the size it requests\<close>


subsection \<open>AIImageProcessor.smart\_crop (ai\_apis.py), the box it crops\<close>

text \<open>A box is \<open>(left, upper, right, lower)\<close>, as \<^verbatim>\<open>Image.crop\<close> takes it.\<close>

type_synonym box = "int \<times> int \<times> int \<times> int"

definition golden_ratio :: rat where
  "golden_ratio = fl (1618 / 1000)"

definition ai_crop_box :: "string \<Rightarrow> int \<Rightarrow> int \<Rightarrow> py_error + box" where
  "ai_crop_box crop_type img_width img_height =
     (if crop_type = ''square'' then
        let size = min img_width img_height;
            x = (img_width - size) div 2;
            y = (img_height - size) div 2
        in Inr (x, y, x + size, y + size)
      else if img_height = 0 then Inl ZeroDivisionError
      else if crop_type = ''portrait'' then
        (if truediv 3 4 < truediv img_width img_height then
           let new_width = py_int (truediv (img_height * 3) 4);
               x = (img_width - new_width) div 2
           in Inr (x, 0, x + new_width, img_height)
         else
           let new_height = py_int (truediv (img_width * 4) 3);
               y = (img_height - new_height) div 2
           in Inr (0, y, img_width, y + new_height))
      else if crop_type = ''landscape'' then
        (if truediv 16 9 < truediv img_width img_height then
           let new_width = py_int (truediv (img_height * 16) 9);
               x = (img_width - new_width) div 2
           in Inr (x, 0, x + new_width, img_height)
         else
           let new_height = py_int (truediv (img_width * 9) 16);
               y = (img_height - new_height) div 2
           in Inr (0, y, img_width, y + new_height))
      else
        (if golden_ratio < truediv img_width img_height then
           let new_width = py_int (fl (of_int img_height * golden_ratio));
               x = (img_width - new_width) div 2
           in Inr (x, 0, x + new_width, img_height)
         else
           let new_height = py_int (fl (of_int img_width / golden_ratio));
               y = (img_height - new_height) div 2
           in Inr (0, y, img_width, y + new_height)))"

subsection \<open>SimpleImageProcessor.smart\_crop (image\_processor.py), the box it crops\<close>

definition simple_crop_box :: "string \<Rightarrow> int \<Rightarrow> int \<Rightarrow> box" where
  "simple_crop_box mode width height =
     (let size = min width height;
          square = ((width - size) div 2, (height - size) div 2,
                    (width - size) div 2 + size, (height - size) div 2 + size)
      in
      if mode = ''smart'' then square
      else if mode = ''square'' then square
      else if mode = ''portrait'' then
        let new_height = min height (py_int (truediv (width * 16) 9));
            new_width = py_int (truediv (new_height * 9) 16);
            left = (width - new_width) div 2;
            top = (height - new_height) div 2
        in (left, top, left + new_width, top + new_height)
      else if mode = ''landscape'' then
        let new_width = min width (py_int (truediv (height * 16) 9));
            new_height = py_int (truediv (new_width * 9) 16);
            left = (width - new_width) div 2;
            top = (height - new_height) div 2
        in (left, top, left + new_width, top + new_height)
      else square)"




section \<open>Files and the image library\<close>

text \<open>
  The image library (Pillow) is not code of this repository. It is modelled by what the
  processors rely on and by the documented failures of its calls:
  \<^item> an image has a mode and a size; its pixels are not modelled;
  \<^item> \<^verbatim>\<open>Image.open\<close> raises on a missing file and on a file that is not an image;
  \<^item> \<^verbatim>\<open>resize\<close> raises ``height and width must be > 0'' for a size below one pixel;
  \<^item> \<^verbatim>\<open>crop\<close> raises when right is less than left or lower less than upper;
  \<^item> the JPEG encoder raises ``cannot write empty image as JPEG'' for an image without
    pixels and ``cannot write mode ... as JPEG'' for a mode outside 1, L, RGB, CMYK, YCbCr;
    the PNG encoder accepts the modes 1, L, LA, P, RGB, RGBA, I; the WebP encoder
    converts every other mode to RGB or RGBA first.
  A saved file holds the image as it was written.
\<close>

type_synonym path = string

datatype img_mode =
    Mode_1 | Mode_L | Mode_LA | Mode_P | Mode_PA | Mode_RGB | Mode_RGBA
  | Mode_CMYK | Mode_YCbCr | Mode_I | Mode_F

record image =
  im_mode :: img_mode
  im_width :: int
  im_height :: int

datatype content = Image_file image | Bytes_file nat

datatype format = JPEG | PNG | WEBP

definition has_alpha :: "img_mode \<Rightarrow> bool" where
  "has_alpha m = (m = Mode_LA \<or> m = Mode_PA \<or> m = Mode_RGBA)"

definition jpeg_writes :: "img_mode \<Rightarrow> bool" where
  "jpeg_writes m = (m = Mode_1 \<or> m = Mode_L \<or> m = Mode_RGB \<or> m = Mode_CMYK \<or> m = Mode_YCbCr)"

definition png_writes :: "img_mode \<Rightarrow> bool" where
  "png_writes m = (m = Mode_1 \<or> m = Mode_L \<or> m = Mode_LA \<or> m = Mode_P \<or> m = Mode_RGB
     \<or> m = Mode_RGBA \<or> m = Mode_I)"

text \<open>
  The world a processor runs in: the files on disk, how many file names have been
  generated so far, and the calls made so far (a record kept for the claims, not a
  variable of the program).
\<close>

datatype call =
    Call_remove_background_removebg path
  | Call_remove_background_local path
  | Call_generate_background_photoroom path
  | Call_generate_background_local path
  | Post_removebg path
  | Post_photoroom path

record world =
  files :: "path \<Rightarrow> content option"
  draws :: nat
  calls :: "call list"

text \<open>
  What the program does not control: the credentials in the environment, what the remote
  services answer to a posted file (no answer: the request raised), the clock and the
  random identifier read at each file-name generation, and Pillow's encoders for file
  extensions other than jpg, jpeg, png and webp.
\<close>

datatype http_reply = No_reply | Reply nat content

record env =
  removebg_api_key :: "string option"
  photoroom_api_key :: "string option"
  removebg_service :: "content \<Rightarrow> http_reply"
  photoroom_service :: "string \<Rightarrow> content \<Rightarrow> http_reply"
  clock_uuid :: "nat \<Rightarrow> string \<times> string"
  other_encoder :: "string \<Rightarrow> image \<Rightarrow> bool"

type_synonym 'a outcome = "(py_error + 'a) \<times> world"

definition pil_open :: "world \<Rightarrow> path \<Rightarrow> py_error + image" where
  "pil_open w p = (case files w p of
       None \<Rightarrow> Inl FileNotFoundError
     | Some (Bytes_file _) \<Rightarrow> Inl UnidentifiedImageError
     | Some (Image_file img) \<Rightarrow> Inr img)"

definition pil_convert :: "image \<Rightarrow> img_mode \<Rightarrow> image" where
  "pil_convert img m = img\<lparr>im_mode := m\<rparr>"

definition pil_resize :: "image \<Rightarrow> int \<times> int \<Rightarrow> py_error + image" where
  "pil_resize img new_size = (case new_size of (new_width, new_height) \<Rightarrow>
     if new_width < 1 \<or> new_height < 1 then Inl (ValueError ''height and width must be > 0'')
     else Inr (img\<lparr>im_width := new_width, im_height := new_height\<rparr>))"

definition pil_crop :: "image \<Rightarrow> box \<Rightarrow> py_error + image" where
  "pil_crop img b = (case b of (left, upper, right, lower) \<Rightarrow>
     if right < left then Inl (ValueError ''Coordinate right is less than left'')
     else if lower < upper then Inl (ValueError ''Coordinate lower is less than upper'')
     else Inr (img\<lparr>im_width := right - left, im_height := lower - upper\<rparr>))"

definition write_file :: "path \<Rightarrow> content \<Rightarrow> world \<Rightarrow> world" where
  "write_file p f w = w\<lparr>files := (files w)(p \<mapsto> f)\<rparr>"

definition webp_stored :: "image \<Rightarrow> image" where
  "webp_stored img =
     (if im_mode img = Mode_RGB \<or> im_mode img = Mode_RGBA then img
      else pil_convert img (if has_alpha (im_mode img) then Mode_RGBA else Mode_RGB))"

definition mode_name :: "img_mode \<Rightarrow> string" where
  "mode_name m = (case m of
       Mode_1 \<Rightarrow> ''1'' | Mode_L \<Rightarrow> ''L'' | Mode_LA \<Rightarrow> ''LA'' | Mode_P \<Rightarrow> ''P'' | Mode_PA \<Rightarrow> ''PA''
     | Mode_RGB \<Rightarrow> ''RGB'' | Mode_RGBA \<Rightarrow> ''RGBA'' | Mode_CMYK \<Rightarrow> ''CMYK''
     | Mode_YCbCr \<Rightarrow> ''YCbCr'' | Mode_I \<Rightarrow> ''I'' | Mode_F \<Rightarrow> ''F'')"

definition is_empty_image :: "image \<Rightarrow> bool" where
  "is_empty_image img = (im_width img < 1 \<or> im_height img < 1)"

definition pil_save :: "format \<Rightarrow> path \<Rightarrow> image \<Rightarrow> world \<Rightarrow> py_error + world" where
  "pil_save fmt p img w = (case fmt of
       JPEG \<Rightarrow>
         if is_empty_image img then Inl (ValueError ''cannot write empty image as JPEG'')
         else if jpeg_writes (im_mode img) then Inr (write_file p (Image_file img) w)
         else Inl (OSError (''cannot write mode '' @ mode_name (im_mode img) @ '' as JPEG''))
     | PNG \<Rightarrow>
         if \<not> png_writes (im_mode img)
           then Inl (OSError (''cannot write mode '' @ mode_name (im_mode img) @ '' as PNG''))
         else if is_empty_image img then Inl (SystemError ''tile cannot extend outside image'')
         else Inr (write_file p (Image_file img) w)
     | WEBP \<Rightarrow>
         if is_empty_image img then Inl (OSError ''cannot write file as WebP'')
         else Inr (write_file p (Image_file (webp_stored img)) w))"

section \<open>File names\<close>

definition processed_dir :: path where
  "processed_dir = ''processed''"

text \<open>\<^verbatim>\<open>os.path.join(a, b)\<close> on POSIX, for two components.\<close>

definition os_path_join :: "path \<Rightarrow> path \<Rightarrow> path" where
  "os_path_join a b =
     (if b \<noteq> [] \<and> hd b = CHR ''/'' then b
      else if a = [] \<or> last a = CHR ''/'' then a @ b
      else a @ ''/'' @ b)"

text \<open>
  AIImageProcessor.\_generate\_filename: the prefix, the time stamp, the first eight
  characters of a fresh UUID, the extension.
\<close>

definition generate_filename :: "env \<Rightarrow> string \<Rightarrow> string \<Rightarrow> world \<Rightarrow> string \<times> world" where
  "generate_filename env prefix extension w =
     (case clock_uuid env (draws w) of (timestamp, unique_id) \<Rightarrow>
        (prefix @ ''_'' @ timestamp @ ''_'' @ unique_id @ ''.'' @ extension,
         w\<lparr>draws := Suc (draws w)\<rparr>))"

text \<open>\<^verbatim>\<open>str.lower\<close>, on ASCII strings.\<close>

definition lower_char :: "char \<Rightarrow> char" where
  "lower_char c = (let n = of_char c :: nat in if 65 \<le> n \<and> n \<le> 90 then char_of (n + 32) else c)"

definition py_lower :: "string \<Rightarrow> string" where
  "py_lower s = map lower_char s"

section \<open>AIImageProcessor (ai\_apis.py)\<close>

definition ai_resize_image :: "env \<Rightarrow> path \<Rightarrow> int \<Rightarrow> int \<Rightarrow> world \<Rightarrow> path outcome" where
  "ai_resize_image env input_path width height w =
     (case pil_open w input_path of Inl e \<Rightarrow> (Inl e, w)
      | Inr opened \<Rightarrow>
        let img = (if im_mode opened = Mode_RGBA \<or> im_mode opened = Mode_P
                   then pil_convert opened Mode_RGB else opened) in
        case ai_resize_dims (im_width img) (im_height img) width height of Inl e \<Rightarrow> (Inl e, w)
        | Inr new_size \<Rightarrow>
          case pil_resize img new_size of Inl e \<Rightarrow> (Inl e, w)
          | Inr resized_img \<Rightarrow>
            case generate_filename env ''resized'' ''jpg'' w of (output_filename, w1) \<Rightarrow>
              let output_path = os_path_join processed_dir output_filename in
              case pil_save JPEG output_path resized_img w1 of Inl e \<Rightarrow> (Inl e, w1)
              | Inr w2 \<Rightarrow> (Inr output_path, w2))"

definition ai_smart_crop :: "env \<Rightarrow> path \<Rightarrow> string \<Rightarrow> world \<Rightarrow> path outcome" where
  "ai_smart_crop env input_path crop_type w =
     (case pil_open w input_path of Inl e \<Rightarrow> (Inl e, w)
      | Inr img \<Rightarrow>
        case ai_crop_box crop_type (im_width img) (im_height img) of Inl e \<Rightarrow> (Inl e, w)
        | Inr b \<Rightarrow>
          case pil_crop img b of Inl e \<Rightarrow> (Inl e, w)
          | Inr cropped_img \<Rightarrow>
            case generate_filename env (''cropped_'' @ crop_type) ''jpg'' w of (output_filename, w1) \<Rightarrow>
              let output_path = os_path_join processed_dir output_filename in
              case pil_save JPEG output_path cropped_img w1 of Inl e \<Rightarrow> (Inl e, w1)
              | Inr w2 \<Rightarrow> (Inr output_path, w2))"

definition ai_convert_format :: "env \<Rightarrow> path \<Rightarrow> string \<Rightarrow> world \<Rightarrow> path outcome" where
  "ai_convert_format env input_path target_format w =
     (case pil_open w input_path of Inl e \<Rightarrow> (Inl e, w)
      | Inr opened \<Rightarrow>
        if py_lower target_format = ''jpg'' \<or> py_lower target_format = ''jpeg'' then
          let img = (if im_mode opened = Mode_RGBA \<or> im_mode opened = Mode_P
                     then pil_convert opened Mode_RGB else opened) in
          case generate_filename env (''converted_'' @ target_format) ''jpg'' w of
            (output_filename, w1) \<Rightarrow>
              let output_path = os_path_join processed_dir output_filename in
              case pil_save JPEG output_path img w1 of Inl e \<Rightarrow> (Inl e, w1)
              | Inr w2 \<Rightarrow> (Inr output_path, w2)
        else if py_lower target_format = ''png'' then
          let img = (if im_mode opened \<noteq> Mode_RGBA \<and> im_mode opened \<noteq> Mode_RGB
                     then pil_convert opened Mode_RGBA else opened) in
          case generate_filename env (''converted_'' @ target_format) ''png'' w of
            (output_filename, w1) \<Rightarrow>
              let output_path = os_path_join processed_dir output_filename in
              case pil_save PNG output_path img w1 of Inl e \<Rightarrow> (Inl e, w1)
              | Inr w2 \<Rightarrow> (Inr output_path, w2)
        else if py_lower target_format = ''webp'' then
          case generate_filename env (''converted_'' @ target_format) ''webp'' w of
            (output_filename, w1) \<Rightarrow>
              let output_path = os_path_join processed_dir output_filename in
              case pil_save WEBP output_path opened w1 of Inl e \<Rightarrow> (Inl e, w1)
              | Inr w2 \<Rightarrow> (Inr output_path, w2)
        else (Inl (ValueError (''Unsupported format: '' @ target_format)), w))"

subsection \<open>Background removal and generation\<close>

text \<open>
  \<^verbatim>\<open>if not self.removebg_api_key\<close>: the variable is unset or empty.
\<close>

definition falsy :: "string option \<Rightarrow> bool" where
  "falsy k = (k = None \<or> k = Some [])"

definition log_call :: "call \<Rightarrow> world \<Rightarrow> world" where
  "log_call c w = w\<lparr>calls := calls w @ [c]\<rparr>"

text \<open>
  remove\_background\_local. The pixel loop (every pixel close to the mean corner colour
  becomes transparent) does not raise on RGBA data and does not change the size; the
  handler of the function re-raises whatever was raised.
\<close>

definition remove_background_local :: "env \<Rightarrow> path \<Rightarrow> world \<Rightarrow> path outcome" where
  "remove_background_local env input_path w0 =
     (let w = log_call (Call_remove_background_local input_path) w0 in
      case pil_open w input_path of Inl e \<Rightarrow> (Inl e, w)
      | Inr opened \<Rightarrow>
        let img = (if im_mode opened \<noteq> Mode_RGBA then pil_convert opened Mode_RGBA else opened) in
        case generate_filename env ''bg_removed_local'' ''png'' w of (output_filename, w1) \<Rightarrow>
          let output_path = os_path_join processed_dir output_filename in
          case pil_save PNG output_path img w1 of Inl e \<Rightarrow> (Inl e, w1)
          | Inr w2 \<Rightarrow> (Inr output_path, w2))"

text \<open>
  remove\_background\_removebg. Everything after the credential test runs inside
  \<^verbatim>\<open>try\<close>, the call of the local method for a status other than 200 included; the
  handler calls the local method.
\<close>

definition remove_background_removebg :: "env \<Rightarrow> path \<Rightarrow> world \<Rightarrow> path outcome" where
  "remove_background_removebg env input_path w0 =
     (let w = log_call (Call_remove_background_removebg input_path) w0 in
      if falsy (removebg_api_key env) then remove_background_local env input_path w
      else
        case (case files w input_path of
                None \<Rightarrow> (Inl FileNotFoundError, w)
              | Some posted \<Rightarrow>
                  let wp = log_call (Post_removebg input_path) w in
                  case removebg_service env posted of
                    No_reply \<Rightarrow> (Inl RequestException, wp)
                  | Reply status_code body \<Rightarrow>
                      if status_code = 200 then
                        case generate_filename env ''removebg'' ''png'' wp of
                          (output_filename, w1) \<Rightarrow>
                            let output_path = os_path_join processed_dir output_filename in
                            (Inr output_path, write_file output_path body w1)
                      else remove_background_local env input_path wp)
        of (Inl e, w') \<Rightarrow> remove_background_local env input_path w'
         | (Inr output_path, w') \<Rightarrow> (Inr output_path, w'))"

text \<open>
  generate\_background\_local. The gradient is painted pixel by pixel on a new RGB image of
  the input's size; the result of the composition is converted to RGB and saved as JPEG.
\<close>

definition generate_background_local :: "env \<Rightarrow> path \<Rightarrow> world \<Rightarrow> path outcome" where
  "generate_background_local env input_path w0 =
     (let w = log_call (Call_generate_background_local input_path) w0 in
      case pil_open w input_path of Inl e \<Rightarrow> (Inl e, w)
      | Inr img \<Rightarrow>
        let result = \<lparr>im_mode = (if im_mode img = Mode_RGBA then Mode_RGBA else Mode_RGB),
                      im_width = im_width img, im_height = im_height img\<rparr> in
        case generate_filename env ''bg_generated_local'' ''jpg'' w of (output_filename, w1) \<Rightarrow>
          let output_path = os_path_join processed_dir output_filename in
          case pil_save JPEG output_path (pil_convert result Mode_RGB) w1 of Inl e \<Rightarrow> (Inl e, w1)
          | Inr w2 \<Rightarrow> (Inr output_path, w2))"

definition generate_background_photoroom :: "env \<Rightarrow> path \<Rightarrow> string \<Rightarrow> world \<Rightarrow> path outcome" where
  "generate_background_photoroom env input_path background_prompt w0 =
     (let w = log_call (Call_generate_background_photoroom input_path) w0 in
      if falsy (photoroom_api_key env) then generate_background_local env input_path w
      else
        case (case remove_background_removebg env input_path w of
                (Inl e, w1) \<Rightarrow> (Inl e, w1)
              | (Inr no_bg_path, w1) \<Rightarrow>
                  (case files w1 no_bg_path of
                     None \<Rightarrow> (Inl FileNotFoundError, w1)
                   | Some posted \<Rightarrow>
                       let wp = log_call (Post_photoroom no_bg_path) w1 in
                       case photoroom_service env background_prompt posted of
                         No_reply \<Rightarrow> (Inl RequestException, wp)
                       | Reply status_code body \<Rightarrow>
                           if status_code = 200 then
                             case generate_filename env ''photoroom_bg'' ''jpg'' wp of
                               (output_filename, w2) \<Rightarrow>
                                 let output_path = os_path_join processed_dir output_filename in
                                 (Inr output_path, write_file output_path body w2)
                           else generate_background_local env input_path wp))
        of (Inl e, w') \<Rightarrow> generate_background_local env input_path w'
         | (Inr output_path, w') \<Rightarrow> (Inr output_path, w'))"

text \<open>A path inside the directory of the results.\<close>

definition in_processed :: "path \<Rightarrow> bool" where
  "in_processed p = (take 10 p = ''processed/'')"

text \<open>A request that did not succeed: no answer, or a status other than 200.\<close>

definition remote_failed :: "http_reply \<Rightarrow> bool" where
  "remote_failed r = (case r of No_reply \<Rightarrow> True | Reply status_code body \<Rightarrow> status_code \<noteq> 200)"

section \<open>SimpleImageProcessor (image\_processor.py)\<close>

text \<open>\<^verbatim>\<open>os.path.basename\<close> and \<^verbatim>\<open>os.path.splitext\<close> on POSIX.\<close>

definition basename :: "path \<Rightarrow> string" where
  "basename p = rev (takeWhile (\<lambda>c. c \<noteq> CHR ''/'') (rev p))"

definition splitext :: "path \<Rightarrow> string \<times> string" where
  "splitext p =
     (let base = basename p;
          dir = take (length p - length base) p;
          after_dot = rev (takeWhile (\<lambda>c. c \<noteq> CHR ''.'') (rev base));
          stem = take (length base - length after_dot - 1) base
      in if CHR ''.'' \<notin> set base \<or> list_all (\<lambda>c. c = CHR ''.'') stem then (p, [])
         else (dir @ stem, CHR ''.'' # after_dot))"

text \<open>
  \_get\_output\_path: \<^verbatim>\<open>processed/{name}_{suffix}{new_ext}\<close>, where the name and the
  extension are those of the input's base name and a given extension replaces the
  input's.
\<close>

definition get_output_path :: "path \<Rightarrow> string \<Rightarrow> string option \<Rightarrow> path" where
  "get_output_path input_path suffix extension =
     (case splitext (basename input_path) of (name, orig_ext) \<Rightarrow>
        let new_ext = (case extension of
                         None \<Rightarrow> orig_ext
                       | Some e \<Rightarrow> if e = [] then orig_ext else ''.'' @ e)
        in os_path_join ''processed'' (name @ ''_'' @ suffix @ new_ext))"

text \<open>
  \<^verbatim>\<open>img.save(path)\<close> without a format: Pillow takes the encoder from the lower-cased
  extension of the path. The encoders for other extensions are not modelled:
  \<open>other_encoder\<close> says whether Pillow has one that accepts the image.
\<close>

definition save_by_extension :: "env \<Rightarrow> path \<Rightarrow> image \<Rightarrow> world \<Rightarrow> py_error + world" where
  "save_by_extension env p img w =
     (let ext = py_lower (snd (splitext p)) in
      if ext = ''.jpg'' \<or> ext = ''.jpeg'' then pil_save JPEG p img w
      else if ext = ''.png'' then pil_save PNG p img w
      else if ext = ''.webp'' then pil_save WEBP p img w
      else if other_encoder env ext img then Inr (write_file p (Image_file img) w)
      else Inl (ValueError (''unknown file extension: '' @ ext)))"

text \<open>\<^verbatim>\<open>str(n)\<close> for an int, as the f-strings print it.\<close>

fun str_nat :: "nat \<Rightarrow> string" where
  "str_nat n = (if n < 10 then [char_of (48 + n)]
                else str_nat (n div 10) @ [char_of (48 + n mod 10)])"

declare str_nat.simps [simp del]

definition str_int :: "int \<Rightarrow> string" where
  "str_int i = (if i < 0 then ''-'' @ str_nat (nat (- i)) else str_nat (nat i))"





definition simple_convert_format :: "env \<Rightarrow> path \<Rightarrow> string \<Rightarrow> world \<Rightarrow> path outcome" where
  "simple_convert_format env image_path fmt w =
     (case pil_open w image_path of Inl e \<Rightarrow> (Inl e, w)
      | Inr opened \<Rightarrow>
        let output_path = get_output_path image_path ''converted'' (Some fmt) in
        if py_lower fmt = ''jpeg'' \<or> py_lower fmt = ''jpg'' then
          let img = (if im_mode opened = Mode_RGBA \<or> im_mode opened = Mode_LA \<or> im_mode opened = Mode_P
                     then pil_convert opened Mode_RGB else opened) in
          case pil_save JPEG output_path img w of Inl e \<Rightarrow> (Inl e, w)
          | Inr w1 \<Rightarrow> (Inr output_path, w1)
        else if py_lower fmt = ''png'' then
          (case pil_save PNG output_path opened w of Inl e \<Rightarrow> (Inl e, w)
           | Inr w1 \<Rightarrow> (Inr output_path, w1))
        else if py_lower fmt = ''webp'' then
          (case pil_save WEBP output_path opened w of Inl e \<Rightarrow> (Inl e, w)
           | Inr w1 \<Rightarrow> (Inr output_path, w1))
        else
          (case save_by_extension env output_path opened w of Inl e \<Rightarrow> (Inl e, w)
           | Inr w1 \<Rightarrow> (Inr output_path, w1)))"

section \<open>What an operation leaves on the disk\<close>


section \<open>The target boxes of the resize menu\<close>

text \<open>\<^verbatim>\<open>size_map\<close> of SimpleTelegramBot.process\_resize (bot\_simple.py).\<close>

definition size_map :: "string \<Rightarrow> (int \<times> int) option" where
  "size_map action =
     (if action = ''resize_8k'' then Some (7680, 4320)
      else if action = ''resize_4k'' then Some (3840, 2160)
      else if action = ''resize_1080p'' then Some (1920, 1080)
      else if action = ''resize_720p'' then Some (1280, 720)
      else if action = ''resize_mobile'' then Some (720, 1280)
      else None)"


section \<open>Example inputs\<close>

text \<open>
  A disk that holds one file; an environment without credentials, whose services do not
  answer and whose clock and identifiers never change.
\<close>

definition one_file :: "path \<Rightarrow> content \<Rightarrow> world" where
  "one_file p c = \<lparr>files = (\<lambda>q. if q = p then Some c else None), draws = 0, calls = []\<rparr>"

definition quiet_env :: env where
  "quiet_env = \<lparr>removebg_api_key = None, photoroom_api_key = None,
     removebg_service = (\<lambda>_. No_reply), photoroom_service = (\<lambda>_ _. No_reply),
     clock_uuid = (\<lambda>_. (''20250101_120000'', ''0a1b2c3d'')),
     other_encoder = (\<lambda>_ _. False)\<rparr>"

definition empty_disk :: world where
  "empty_disk = \<lparr>files = (\<lambda>q. None), draws = 0, calls = []\<rparr>"

definition rgb_image :: "int \<Rightarrow> int \<Rightarrow> image" where
  "rgb_image w h = \<lparr>im_mode = Mode_RGB, im_width = w, im_height = h\<rparr>"

section \<open>The bots\<close>

text \<open>
  A bot receives a callback query (a pressed button), talks to Telegram and calls the
  image processor it was built with. The processor is any object with the six methods
  the bot calls; the web application builds the bot with AIImageProcessor. Message texts
  are written without their leading emoji and without Markdown marks.
\<close>

datatype operation =
    Op_resize int int
  | Op_crop string
  | Op_remove_background
  | Op_generate_background
  | Op_convert string
  | Op_enhance string

record processor =
  op_resize_image :: "path \<Rightarrow> int \<Rightarrow> int \<Rightarrow> world \<Rightarrow> path outcome"
  op_smart_crop :: "path \<Rightarrow> string \<Rightarrow> world \<Rightarrow> path outcome"
  op_remove_background :: "path \<Rightarrow> world \<Rightarrow> path outcome"
  op_generate_background :: "path \<Rightarrow> world \<Rightarrow> path outcome"
  op_convert_format :: "path \<Rightarrow> string \<Rightarrow> world \<Rightarrow> path outcome"
  op_enhance_quality :: "path \<Rightarrow> string \<Rightarrow> world \<Rightarrow> path outcome"

text \<open>
  AIImageProcessor as the bot sees it. Its method enhance\_quality\_ai is not modelled and
  is left as a parameter.
\<close>

definition ai_processor :: "env \<Rightarrow> (path \<Rightarrow> string \<Rightarrow> world \<Rightarrow> path outcome) \<Rightarrow> processor" where
  "ai_processor env enhance =
     \<lparr>op_resize_image = ai_resize_image env,
      op_smart_crop = ai_smart_crop env,
      op_remove_background = remove_background_removebg env,
      op_generate_background = (\<lambda>p. generate_background_photoroom env p ''professional gradient''),
      op_convert_format = ai_convert_format env,
      op_enhance_quality = enhance\<rparr>"

type_synonym keyboard = "(string \<times> string) list list"

text \<open>
  What a run leaves behind: the requests sent to Telegram and the processor methods
  called, in order, and the disk. Telegram's answer to a request is not in the bot's
  hands: \<open>telegram history request\<close> says whether the request succeeds.
\<close>

datatype bot_event =
    Answer_callback string
  | Edit_message int int string "keyboard option"
  | Send_photo int path string
  | Invoke operation path

record run =
  events :: "bot_event list"
  disk :: world

type_synonym telegram = "bot_event list \<Rightarrow> bot_event \<Rightarrow> bool"

type_synonym 'a action = "run \<Rightarrow> (py_error + 'a) \<times> run"

definition then_do :: "'a action \<Rightarrow> ('a \<Rightarrow> 'b action) \<Rightarrow> 'b action" where
  "then_do m f r = (case m r of (Inl e, r') \<Rightarrow> (Inl e, r') | (Inr x, r') \<Rightarrow> f x r')"

definition try_except :: "'a action \<Rightarrow> (py_error \<Rightarrow> 'a action) \<Rightarrow> 'a action" where
  "try_except m handler r = (case m r of (Inl e, r') \<Rightarrow> handler e r' | (Inr x, r') \<Rightarrow> (Inr x, r'))"

definition done_ok :: "unit action" where
  "done_ok r = (Inr (), r)"

definition raise_error :: "py_error \<Rightarrow> 'a action" where
  "raise_error e r = (Inl e, r)"

definition call_processor :: "operation \<Rightarrow> path \<Rightarrow> (world \<Rightarrow> path outcome) \<Rightarrow> path action" where
  "call_processor op p method r =
     (case method (disk r) of (res, w') \<Rightarrow>
        (res, \<lparr>events = events r @ [Invoke op p], disk = w'\<rparr>))"

subsection \<open>String methods\<close>

definition starts_with :: "string \<Rightarrow> string \<Rightarrow> bool" where
  "starts_with s p = (take (length p) s = p)"

text \<open>\<^verbatim>\<open>s.replace(old, "")\<close>: every occurrence of \<open>old\<close>, from the left.\<close>

function remove_all :: "string \<Rightarrow> string \<Rightarrow> string" where
  "remove_all old s =
     (if old = [] \<or> s = [] then s
      else if take (length old) s = old then remove_all old (drop (length old) s)
      else hd s # remove_all old (tl s))"
  by pat_completeness auto
termination
  by (relation "measure (\<lambda>(old, s). length s)") auto

declare remove_all.simps [simp del]

definition is_upper :: "char \<Rightarrow> bool" where
  "is_upper c = (65 \<le> (of_char c :: nat) \<and> (of_char c :: nat) \<le> 90)"

definition is_lower :: "char \<Rightarrow> bool" where
  "is_lower c = (97 \<le> (of_char c :: nat) \<and> (of_char c :: nat) \<le> 122)"

definition upper_char :: "char \<Rightarrow> char" where
  "upper_char c = (if is_lower c then char_of ((of_char c :: nat) - 32) else c)"

definition py_upper :: "string \<Rightarrow> string" where
  "py_upper s = map upper_char s"

text \<open>\<^verbatim>\<open>str.title\<close>, on ASCII strings: a letter after a letter is lower case, any other
  letter upper case.\<close>

fun title_from :: "bool \<Rightarrow> string \<Rightarrow> string" where
  "title_from after_letter [] = []"
| "title_from after_letter (c # cs) =
     (if is_upper c \<or> is_lower c
      then (if after_letter then lower_char c else upper_char c) # title_from True cs
      else c # title_from False cs)"

definition py_title :: "string \<Rightarrow> string" where
  "py_title s = title_from False s"

subsection \<open>SimpleTelegramBot (bot\_simple.py)\<close>

text \<open>
  \<^verbatim>\<open>user_photos\<close> is created by the first upload: \<open>None\<close> is the bot without the
  attribute.
\<close>

record simple_bot =
  user_photos :: "(int \<Rightarrow> path option) option"

record callback_query =
  cq_id :: string
  cq_from :: int
  cq_chat :: int
  cq_message :: int
  cq_data :: string

definition api_request :: "telegram \<Rightarrow> bot_event \<Rightarrow> unit action" where
  "api_request tg request r =
     (if tg (events r) request then (Inr (), r\<lparr>events := events r @ [request]\<rparr>)
      else (Inl RequestException, r\<lparr>events := events r @ [request]\<rparr>))"

definition edit_message_text :: "telegram \<Rightarrow> int \<Rightarrow> int \<Rightarrow> string \<Rightarrow> keyboard option \<Rightarrow> unit action" where
  "edit_message_text tg chat_id message_id txt reply_markup =
     api_request tg (Edit_message chat_id message_id txt reply_markup)"

definition send_photo :: "telegram \<Rightarrow> int \<Rightarrow> path \<Rightarrow> string \<Rightarrow> unit action" where
  "send_photo tg chat_id photo_path caption r =
     (case files (disk r) photo_path of
        None \<Rightarrow> (Inl FileNotFoundError, r)
      | Some _ \<Rightarrow> api_request tg (Send_photo chat_id photo_path caption) r)"

definition process_resize :: "telegram \<Rightarrow> processor \<Rightarrow> int \<Rightarrow> int \<Rightarrow> path \<Rightarrow> string \<Rightarrow> unit action" where
  "process_resize tg proc chat_id message_id photo_path action =
     try_except
       (then_do (edit_message_text tg chat_id message_id ''Resizing image... Please wait.'' None)
         (\<lambda>_. case size_map action of
                 None \<Rightarrow> raise_error (KeyError action)
               | Some (width, height) \<Rightarrow>
                   then_do (call_processor (Op_resize width height) photo_path
                              (op_resize_image proc photo_path width height))
                     (\<lambda>result_path.
                        then_do (send_photo tg chat_id result_path
                                   (''Image resized to '' @ str_int width @ ''x'' @ str_int height))
                          (\<lambda>_. edit_message_text tg chat_id message_id
                                  ''Image resized successfully!'' None))))
       (\<lambda>e. edit_message_text tg chat_id message_id
               ''Failed to resize image. Please try again.'' None)"

definition process_crop :: "telegram \<Rightarrow> processor \<Rightarrow> int \<Rightarrow> int \<Rightarrow> path \<Rightarrow> string \<Rightarrow> unit action" where
  "process_crop tg proc chat_id message_id photo_path action =
     try_except
       (then_do (edit_message_text tg chat_id message_id ''Cropping image... Please wait.'' None)
         (\<lambda>_. then_do (call_processor (Op_crop (remove_all ''crop_'' action)) photo_path
                          (op_smart_crop proc photo_path (remove_all ''crop_'' action)))
                 (\<lambda>result_path.
                    then_do (send_photo tg chat_id result_path
                               (''Image cropped ('' @ py_title (remove_all ''crop_'' action) @ '')''))
                      (\<lambda>_. edit_message_text tg chat_id message_id
                              ''Image cropped successfully!'' None))))
       (\<lambda>e. edit_message_text tg chat_id message_id
               ''Failed to crop image. Please try again.'' None)"

definition process_remove_background :: "telegram \<Rightarrow> processor \<Rightarrow> int \<Rightarrow> int \<Rightarrow> path \<Rightarrow> unit action" where
  "process_remove_background tg proc chat_id message_id photo_path =
     try_except
       (then_do (edit_message_text tg chat_id message_id
                   ''Removing background with AI... Please wait.'' None)
         (\<lambda>_. then_do (call_processor Op_remove_background photo_path
                          (op_remove_background proc photo_path))
                 (\<lambda>result_path.
                    then_do (send_photo tg chat_id result_path
                               ''Background removed with AI-powered Remove.bg!'')
                      (\<lambda>_. edit_message_text tg chat_id message_id
                              ''Background removed using AI!'' None))))
       (\<lambda>e. edit_message_text tg chat_id message_id
               ''Failed to remove background. Please try again.'' None)"

definition process_generate_background :: "telegram \<Rightarrow> processor \<Rightarrow> int \<Rightarrow> int \<Rightarrow> path \<Rightarrow> unit action" where
  "process_generate_background tg proc chat_id message_id photo_path =
     try_except
       (then_do (edit_message_text tg chat_id message_id
                   ''Generating new background with AI... Please wait.'' None)
         (\<lambda>_. then_do (call_processor Op_generate_background photo_path
                          (op_generate_background proc photo_path))
                 (\<lambda>result_path.
                    then_do (send_photo tg chat_id result_path
                               ''New background generated with PhotoRoom AI!'')
                      (\<lambda>_. edit_message_text tg chat_id message_id
                              ''Background generated using AI!'' None))))
       (\<lambda>e. edit_message_text tg chat_id message_id
               ''Failed to generate background. Please try again.'' None)"

definition enhance_menu :: keyboard where
  "enhance_menu =
     [[(''8K Enhancement'', ''enhance_8k''), (''4K Enhancement'', ''enhance_4k'')],
      [(''1080p Enhancement'', ''enhance_1080p''), (''720p Enhancement'', ''enhance_720p'')],
      [(''Original+ (2x)'', ''enhance_original''), (''Back'', ''back'')]]"

definition process_enhance_quality :: "telegram \<Rightarrow> int \<Rightarrow> int \<Rightarrow> path \<Rightarrow> unit action" where
  "process_enhance_quality tg chat_id message_id photo_path =
     try_except
       (edit_message_text tg chat_id message_id ''Choose enhancement quality:'' (Some enhance_menu))
       (\<lambda>e. edit_message_text tg chat_id message_id
               ''Failed to show enhancement options. Please try again.'' None)"

definition format_map :: "string \<Rightarrow> string option" where
  "format_map action =
     (if action = ''convert_jpeg'' then Some ''JPEG''
      else if action = ''convert_png'' then Some ''PNG''
      else if action = ''convert_webp'' then Some ''WebP''
      else None)"

definition process_convert_format :: "telegram \<Rightarrow> processor \<Rightarrow> int \<Rightarrow> int \<Rightarrow> path \<Rightarrow> string \<Rightarrow> unit action" where
  "process_convert_format tg proc chat_id message_id photo_path action =
     try_except
       (then_do (edit_message_text tg chat_id message_id ''Converting format... Please wait.'' None)
         (\<lambda>_. case format_map action of
                 None \<Rightarrow> raise_error (KeyError action)
               | Some output_format \<Rightarrow>
                   then_do (call_processor (Op_convert output_format) photo_path
                              (op_convert_format proc photo_path output_format))
                     (\<lambda>result_path.
                        then_do (send_photo tg chat_id result_path
                                   (''Image converted to '' @ output_format))
                          (\<lambda>_. edit_message_text tg chat_id message_id
                                  ''Format converted successfully!'' None))))
       (\<lambda>e. edit_message_text tg chat_id message_id
               ''Failed to convert format. Please try again.'' None)"

definition resolution_map :: "string \<Rightarrow> string option" where
  "resolution_map action =
     (if action = ''enhance_8k'' then Some ''8k''
      else if action = ''enhance_4k'' then Some ''4k''
      else if action = ''enhance_1080p'' then Some ''1080p''
      else if action = ''enhance_720p'' then Some ''720p''
      else if action = ''enhance_original'' then Some ''original''
      else None)"

definition process_enhance_resolution :: "telegram \<Rightarrow> processor \<Rightarrow> int \<Rightarrow> int \<Rightarrow> path \<Rightarrow> string \<Rightarrow> unit action" where
  "process_enhance_resolution tg proc chat_id message_id photo_path action =
     try_except
       (then_do (edit_message_text tg chat_id message_id
                   ''Enhancing image quality... Please wait.'' None)
         (\<lambda>_. case resolution_map action of
                 None \<Rightarrow> raise_error (KeyError action)
               | Some target_resolution \<Rightarrow>
                   then_do (call_processor (Op_enhance target_resolution) photo_path
                              (op_enhance_quality proc photo_path target_resolution))
                     (\<lambda>result_path.
                        then_do (send_photo tg chat_id result_path
                                   (''Image enhanced to '' @ py_upper target_resolution
                                    @ '' quality with AI!''))
                          (\<lambda>_. edit_message_text tg chat_id message_id
                                  (''Quality enhanced to '' @ py_upper target_resolution @ ''!'')
                                  None))))
       (\<lambda>e. edit_message_text tg chat_id message_id
               ''Failed to enhance quality. Please try again.'' None)"

definition resize_menu :: keyboard where
  "resize_menu =
     [[(''8K (7680x4320)'', ''resize_8k''), (''4K (3840x2160)'', ''resize_4k'')],
      [(''1080p (1920x1080)'', ''resize_1080p''), (''720p (1280x720)'', ''resize_720p'')],
      [(''Mobile (720x1280)'', ''resize_mobile''), (''Back'', ''back'')]]"

definition crop_menu :: keyboard where
  "crop_menu =
     [[(''Smart Crop'', ''crop_smart''), (''Square (1:1)'', ''crop_square'')],
      [(''Portrait (9:16)'', ''crop_portrait''), (''Landscape (16:9)'', ''crop_landscape'')],
      [(''Back'', ''back'')]]"

definition convert_menu :: keyboard where
  "convert_menu =
     [[(''JPEG'', ''convert_jpeg''), (''PNG'', ''convert_png'')],
      [(''WebP'', ''convert_webp''), (''Back'', ''back'')]]"

definition main_menu :: keyboard where
  "main_menu =
     [[(''Resize'', ''resize''), (''Crop'', ''crop'')],
      [(''Remove BG'', ''remove_bg''), (''Generate BG'', ''generate_bg'')],
      [(''Enhance Quality'', ''enhance''), (''Convert Format'', ''convert'')]]"

text \<open>
  handle\_callback\_query. The only test before the dispatch is that the user has an entry
  in \<^verbatim>\<open>user_photos\<close>. The handler of the outer \<^verbatim>\<open>try\<close> edits the message once more
  and swallows what that raises.
\<close>

definition has_photo :: "simple_bot \<Rightarrow> int \<Rightarrow> bool" where
  "has_photo self user_id = (case user_photos self of
       None \<Rightarrow> False
     | Some photos \<Rightarrow> photos user_id \<noteq> None)"

definition dispatch :: "telegram \<Rightarrow> processor \<Rightarrow> int \<Rightarrow> int \<Rightarrow> path \<Rightarrow> string \<Rightarrow> unit action" where
  "dispatch tg proc chat_id message_id photo_path action =
     (if action = ''resize'' then
        edit_message_text tg chat_id message_id ''Choose resize option:'' (Some resize_menu)
      else if starts_with action ''resize_'' then
        process_resize tg proc chat_id message_id photo_path action
      else if action = ''crop'' then
        edit_message_text tg chat_id message_id ''Choose crop option:'' (Some crop_menu)
      else if starts_with action ''crop_'' then
        process_crop tg proc chat_id message_id photo_path action
      else if action = ''remove_bg'' then
        process_remove_background tg proc chat_id message_id photo_path
      else if action = ''generate_bg'' then
        process_generate_background tg proc chat_id message_id photo_path
      else if action = ''enhance'' then
        process_enhance_quality tg chat_id message_id photo_path
      else if action = ''convert'' then
        edit_message_text tg chat_id message_id ''Choose format:'' (Some convert_menu)
      else if starts_with action ''convert_'' then
        process_convert_format tg proc chat_id message_id photo_path action
      else if starts_with action ''enhance_'' then
        process_enhance_resolution tg proc chat_id message_id photo_path action
      else if action = ''back'' then
        edit_message_text tg chat_id message_id
          ''What would you like to do with your photo?'' (Some main_menu)
      else done_ok)"

definition handle_callback_query :: "telegram \<Rightarrow> processor \<Rightarrow> simple_bot \<Rightarrow> callback_query \<Rightarrow> run \<Rightarrow> simple_bot \<times> run" where
  "handle_callback_query tg proc self cq r =
     (self,
      snd (try_except
        (then_do (api_request tg (Answer_callback (cq_id cq)))
           (\<lambda>_. if \<not> has_photo self (cq_from cq) then
                    edit_message_text tg (cq_chat cq) (cq_message cq)
                      ''Please send a photo first!'' None
                  else
                    dispatch tg proc (cq_chat cq) (cq_message cq)
                      (the (the (user_photos self) (cq_from cq))) (cq_data cq)))
        (\<lambda>e. if cq_chat cq \<noteq> 0 \<and> cq_message cq \<noteq> 0 then
                 try_except
                   (edit_message_text tg (cq_chat cq) (cq_message cq)
                      ''An error occurred. Please try again.'' None)
                   (\<lambda>e. done_ok)
               else done_ok)
        r))"

text \<open>
  The buttons that run an operation on the stored photo, in the order in which the router
  tests them, each with the operation its handler calls and the texts the handler shows
  while it works and when the operation has raised. The menus, and a name that is in no
  table, run no operation. \<open>run_operation\<close> is the method of the processor the handler calls.
\<close>

definition run_operation :: "processor \<Rightarrow> operation \<Rightarrow> path \<Rightarrow> world \<Rightarrow> path outcome" where
  "run_operation proc op p = (case op of
       Op_resize width height \<Rightarrow> op_resize_image proc p width height
     | Op_crop style \<Rightarrow> op_smart_crop proc p style
     | Op_remove_background \<Rightarrow> op_remove_background proc p
     | Op_generate_background \<Rightarrow> op_generate_background proc p
     | Op_convert fmt \<Rightarrow> op_convert_format proc p fmt
     | Op_enhance resolution \<Rightarrow> op_enhance_quality proc p resolution)"

definition leaf_action :: "string \<Rightarrow> (operation \<times> string \<times> string) option" where
  "leaf_action action =
     (if action = ''resize'' then None
      else if starts_with action ''resize_'' then
        (case size_map action of
           None \<Rightarrow> None
         | Some (width, height) \<Rightarrow>
             Some (Op_resize width height, ''Resizing image... Please wait.'',
                   ''Failed to resize image. Please try again.''))
      else if action = ''crop'' then None
      else if starts_with action ''crop_'' then
        Some (Op_crop (remove_all ''crop_'' action), ''Cropping image... Please wait.'',
              ''Failed to crop image. Please try again.'')
      else if action = ''remove_bg'' then
        Some (Op_remove_background, ''Removing background with AI... Please wait.'',
              ''Failed to remove background. Please try again.'')
      else if action = ''generate_bg'' then
        Some (Op_generate_background, ''Generating new background with AI... Please wait.'',
              ''Failed to generate background. Please try again.'')
      else if action = ''enhance'' then None
      else if action = ''convert'' then None
      else if starts_with action ''convert_'' then
        (case format_map action of
           None \<Rightarrow> None
         | Some output_format \<Rightarrow>
             Some (Op_convert output_format, ''Converting format... Please wait.'',
                   ''Failed to convert format. Please try again.''))
      else if starts_with action ''enhance_'' then
        (case resolution_map action of
           None \<Rightarrow> None
         | Some target_resolution \<Rightarrow>
             Some (Op_enhance target_resolution, ''Enhancing image quality... Please wait.'',
                   ''Failed to enhance quality. Please try again.''))
      else None)"

subsection \<open>The webhook server (webhook\_server.py)\<close>

text \<open>
  Its functions for Telegram catch what the request raises and return nothing;
  \<^verbatim>\<open>send_photo\<close> removes the file once the request has been made. The handler tests
  that the stored path is not empty and names a file that exists.
\<close>

definition wh_request :: "telegram \<Rightarrow> bot_event \<Rightarrow> run \<Rightarrow> run" where
  "wh_request tg request r = r\<lparr>events := events r @ [request]\<rparr>"

definition wh_send_photo :: "telegram \<Rightarrow> int \<Rightarrow> path \<Rightarrow> string \<Rightarrow> run \<Rightarrow> run" where
  "wh_send_photo tg chat_id photo_path caption r =
     (case files (disk r) photo_path of
        None \<Rightarrow> r
      | Some _ \<Rightarrow>
          if tg (events r) (Send_photo chat_id photo_path caption)
          then \<lparr>events = events r @ [Send_photo chat_id photo_path caption],
                disk = (disk r)\<lparr>files := (files (disk r))(photo_path := None)\<rparr>\<rparr>
          else r\<lparr>events := events r @ [Send_photo chat_id photo_path caption]\<rparr>)"

definition wh_size_map :: "string \<Rightarrow> (int \<times> int) option" where
  "wh_size_map action =
     (if action = ''resize_8k'' then Some (7680, 4320)
      else if action = ''resize_4k'' then Some (3840, 2160)
      else if action = ''resize_1080p'' then Some (1920, 1080)
      else if action = ''resize_720p'' then Some (1280, 720)
      else None)"

definition wh_handle_callback_query :: "telegram \<Rightarrow> processor \<Rightarrow> (int \<Rightarrow> path option) \<Rightarrow> callback_query \<Rightarrow> run \<Rightarrow> run" where
  "wh_handle_callback_query tg proc photos cq r0 =
     (if \<not> tg (events r0) (Answer_callback (cq_id cq))
      then wh_request tg (Answer_callback (cq_id cq)) r0
      else
        let r = wh_request tg (Answer_callback (cq_id cq)) r0;
            chat_id = cq_chat cq; message_id = cq_message cq; action = cq_data cq in
        case photos (cq_from cq) of
          None \<Rightarrow> wh_request tg (Edit_message chat_id message_id
                     ''Photo expired. Please send a new photo.'' None) r
        | Some photo_path \<Rightarrow>
            if photo_path = [] \<or> files (disk r) photo_path = None then
              wh_request tg (Edit_message chat_id message_id
                ''Photo expired. Please send a new photo.'' None) r
            else if action = ''remove_bg'' then
              (let r1 = wh_request tg (Edit_message chat_id message_id
                          ''Removing background... Please wait.'' None) r in
               case call_processor Op_remove_background photo_path
                      (op_remove_background proc photo_path) r1 of
                 (Inl e, r2) \<Rightarrow> wh_request tg (Edit_message chat_id message_id
                                  ''Failed to remove background.'' None) r2
               | (Inr result_path, r2) \<Rightarrow>
                   wh_request tg (Edit_message chat_id message_id
                     ''Background removed successfully!'' None)
                     (wh_send_photo tg chat_id result_path ''Background removed with AI!'' r2))
            else if starts_with action ''resize_'' then
              (case wh_size_map action of
                 None \<Rightarrow> r
               | Some (width, height) \<Rightarrow>
                   let r1 = wh_request tg (Edit_message chat_id message_id
                              ''Resizing... Please wait.'' None) r in
                   case call_processor (Op_resize width height) photo_path
                          (op_resize_image proc photo_path width height) r1 of
                     (Inl e, r2) \<Rightarrow> wh_request tg (Edit_message chat_id message_id
                                      ''Failed to resize image.'' None) r2
                   | (Inr result_path, r2) \<Rightarrow>
                       wh_request tg (Edit_message chat_id message_id ''Resize completed!'' None)
                         (wh_send_photo tg chat_id result_path
                            (''Resized to '' @ str_int width @ ''x'' @ str_int height) r2))
            else r)"

text \<open>Telegram accepting every request; a callback query of user 7.\<close>

definition always_ok :: telegram where
  "always_ok history request = True"

definition press :: "string \<Rightarrow> callback_query" where
  "press action = \<lparr>cq_id = ''q1'', cq_from = 7, cq_chat = 100, cq_message = 55, cq_data = action\<rparr>"

definition no_enhance :: "path \<Rightarrow> string \<Rightarrow> world \<Rightarrow> path outcome" where
  "no_enhance p resolution w = (Inl (ValueError ''enhancement is not available''), w)"

section \<open>Facts about rounding\<close>





































section \<open>Facts about the sizes and boxes\<close>






































section \<open>Facts about the operations\<close>

lemma pil_open_image: "files w p = Some (Image_file img) \<Longrightarrow> pil_open w p = Inr img"
  by (simp add: pil_open_def)

lemma generate_filename_eq:
  "generate_filename env prefix ext w =
     (prefix @ ''_'' @ fst (clock_uuid env (draws w)) @ ''_'' @ snd (clock_uuid env (draws w)) @ ''.'' @ ext,
      w\<lparr>draws := Suc (draws w)\<rparr>)"
  by (simp add: generate_filename_def split: prod.splits)


lemma files_write_file: "files (write_file p c w) p = Some c"
  by (simp add: write_file_def)




lemma pil_open_log_call [simp]: "pil_open (log_call c w) p = pil_open w p"
  by (simp add: pil_open_def log_call_def)

lemma files_log_call [simp]: "files (log_call c w) = files w"
  by (simp add: log_call_def)

lemma calls_log_call [simp]: "calls (log_call c w) = calls w @ [c]"
  by (simp add: log_call_def)

lemma calls_write_file [simp]: "calls (write_file p c w) = calls w"
  by (simp add: write_file_def)

lemma pil_save_png:
  assumes "png_writes (im_mode img)" "1 \<le> im_width img" "1 \<le> im_height img"
  shows "pil_save PNG p img w = Inr (write_file p (Image_file img) w)"
  using assms by (simp add: pil_save_def is_empty_image_def)

lemma remove_background_local_ok:
  assumes f: "files w input_path = Some (Image_file img)"
    and n: "1 \<le> im_width img" "1 \<le> im_height img"
  shows "\<exists>out w'. remove_background_local env input_path w = (Inr out, w')
     \<and> files w' out = Some (Image_file (pil_convert img Mode_RGBA))
     \<and> calls w' = calls w @ [Call_remove_background_local input_path]"
proof -
  define img1 where "img1 = (if im_mode img \<noteq> Mode_RGBA then pil_convert img Mode_RGBA else img)"
  have i1: "img1 = pil_convert img Mode_RGBA" by (simp add: img1_def pil_convert_def)
  have m: "png_writes (im_mode img1)" "1 \<le> im_width img1" "1 \<le> im_height img1"
    using n by (simp_all add: i1 pil_convert_def png_writes_def)
  have o: "pil_open w input_path = Inr img" using f by (rule pil_open_image)
  show ?thesis
    unfolding remove_background_local_def generate_filename_eq
    by (simp add: o Let_def pil_save_png[OF m] files_write_file flip: img1_def i1)
qed


lemma in_processed_join:
  "c \<noteq> CHR ''/'' \<Longrightarrow> in_processed (os_path_join processed_dir (c # rest))"
  by (simp add: in_processed_def os_path_join_def processed_dir_def)

lemma files_write_other: "q \<noteq> p \<Longrightarrow> files (write_file p c w) q = files w q"
  by (simp add: write_file_def)

lemma files_draws [simp]: "files (w\<lparr>draws := n\<rparr>) = files w"
  by simp

lemma calls_draws [simp]: "calls (w\<lparr>draws := n\<rparr>) = calls w"
  by simp


lemma remove_background_local_out:
  assumes "remove_background_local env input_path w = (Inr out, w')"
  shows "in_processed out \<and> files w' out \<noteq> None"
  using assms unfolding remove_background_local_def generate_filename_eq
  by (auto simp add: Let_def pil_save_def write_file_def in_processed_join split: sum.splits if_splits)


lemma remove_background_removebg_out:
  assumes "remove_background_removebg env input_path w = (Inr out, w')"
  shows "in_processed out \<and> files w' out \<noteq> None"
  using assms unfolding remove_background_removebg_def generate_filename_eq
  by (auto simp add: Let_def write_file_def in_processed_join
      split: if_splits option.splits http_reply.splits prod.splits sum.splits
      dest: remove_background_local_out)

lemma remove_background_removebg_ok:
  assumes f: "files w input_path = Some (Image_file img)"
    and n: "1 \<le> im_width img" "1 \<le> im_height img"
  shows "\<exists>out w'. remove_background_removebg env input_path w = (Inr out, w')
     \<and> (\<exists>rest. calls w' = calls w @ Call_remove_background_removebg input_path # rest)
     \<and> (falsy (removebg_api_key env) \<or> remote_failed (removebg_service env (Image_file img))
          \<longrightarrow> files w' out = Some (Image_file (pil_convert img Mode_RGBA))
            \<and> last (calls w') = Call_remove_background_local input_path)"
proof -
  have loc: "\<exists>out w'. remove_background_local env input_path v = (Inr out, w')
     \<and> files w' out = Some (Image_file (pil_convert img Mode_RGBA))
     \<and> calls w' = calls v @ [Call_remove_background_local input_path]"
    if "files v input_path = Some (Image_file img)" for v
    using that n by (rule remove_background_local_ok)
  define w1 where "w1 = log_call (Call_remove_background_removebg input_path) w"
  define wp where "wp = log_call (Post_removebg input_path) w1"
  have f1: "files w1 input_path = Some (Image_file img)" "files wp input_path = Some (Image_file img)"
    using f by (simp_all add: w1_def wp_def)
  have c1: "calls w1 = calls w @ [Call_remove_background_removebg input_path]"
    "calls wp = calls w @ [Call_remove_background_removebg input_path, Post_removebg input_path]"
    by (simp_all add: w1_def wp_def)
  show ?thesis
  proof (cases "falsy (removebg_api_key env)")
    case True
    from loc[OF f1(1)] obtain out w' where
      l: "remove_background_local env input_path w1 = (Inr out, w')"
        "files w' out = Some (Image_file (pil_convert img Mode_RGBA))"
        "calls w' = calls w1 @ [Call_remove_background_local input_path]" by blast
    have "remove_background_removebg env input_path w = (Inr out, w')"
      using True l(1) by (simp add: remove_background_removebg_def Let_def w1_def)
    then show ?thesis using l(2,3) c1(1) by simp
  next
    case False
    show ?thesis
    proof (cases "remote_failed (removebg_service env (Image_file img))")
      case True
      from loc[OF f1(2)] obtain out w' where
        l: "remove_background_local env input_path wp = (Inr out, w')"
          "files w' out = Some (Image_file (pil_convert img Mode_RGBA))"
          "calls w' = calls wp @ [Call_remove_background_local input_path]" by blast
      have "remove_background_removebg env input_path w = (Inr out, w')"
        using False True l(1) f1
        by (auto simp add: remove_background_removebg_def Let_def remote_failed_def
            simp flip: w1_def wp_def split: http_reply.splits)
      then show ?thesis using l(2,3) c1(2) by simp
    next
      case True': False
      then obtain body where b: "removebg_service env (Image_file img) = Reply 200 body"
        by (auto simp add: remote_failed_def split: http_reply.splits)
      have "\<exists>out w'. remove_background_removebg env input_path w = (Inr out, w')
          \<and> calls w' = calls wp"
        using False b f1
        by (simp add: remove_background_removebg_def Let_def generate_filename_eq
            flip: w1_def wp_def)
      then show ?thesis using False True' c1(2) by auto
    qed
  qed
qed






























section \<open>Facts about the bot\<close>

lemma failing_handler:
  assumes acc: "tg (events r) (Edit_message chat_id message_id progress None)"
    and op: "method (disk r) = (Inl e, w')"
  shows "try_except
       (then_do (edit_message_text tg chat_id message_id progress None)
         (\<lambda>_. then_do (call_processor oper p method) rest))
       (\<lambda>e. edit_message_text tg chat_id message_id failure None) r
     = (if tg (events r @ [Edit_message chat_id message_id progress None, Invoke oper p])
              (Edit_message chat_id message_id failure None)
        then Inr () else Inl RequestException,
        \<lparr>events = events r @ [Edit_message chat_id message_id progress None, Invoke oper p,
                               Edit_message chat_id message_id failure None],
         disk = w'\<rparr>)"
  using assms
  by (simp add: try_except_def then_do_def edit_message_text_def api_request_def call_processor_def)

lemma process_resize_fails:
  assumes "size_map action = Some (width, height)"
    and "tg (events r) (Edit_message chat_id message_id ''Resizing image... Please wait.'' None)"
    and "op_resize_image proc p width height (disk r) = (Inl e, w')"
  shows "process_resize tg proc chat_id message_id p action r
     = (if tg (events r @ [Edit_message chat_id message_id ''Resizing image... Please wait.'' None,
                           Invoke (Op_resize width height) p])
              (Edit_message chat_id message_id ''Failed to resize image. Please try again.'' None)
        then Inr () else Inl RequestException,
        \<lparr>events = events r @ [Edit_message chat_id message_id ''Resizing image... Please wait.'' None,
                               Invoke (Op_resize width height) p,
                               Edit_message chat_id message_id ''Failed to resize image. Please try again.'' None],
         disk = w'\<rparr>)"
  unfolding process_resize_def assms(1) option.case prod.case
  using assms(2,3) by (rule failing_handler)

lemma process_crop_fails:
  assumes "tg (events r) (Edit_message chat_id message_id ''Cropping image... Please wait.'' None)"
    and "op_smart_crop proc p (remove_all ''crop_'' action) (disk r) = (Inl e, w')"
  shows "process_crop tg proc chat_id message_id p action r
     = (if tg (events r @ [Edit_message chat_id message_id ''Cropping image... Please wait.'' None,
                           Invoke (Op_crop (remove_all ''crop_'' action)) p])
              (Edit_message chat_id message_id ''Failed to crop image. Please try again.'' None)
        then Inr () else Inl RequestException,
        \<lparr>events = events r @ [Edit_message chat_id message_id ''Cropping image... Please wait.'' None,
                               Invoke (Op_crop (remove_all ''crop_'' action)) p,
                               Edit_message chat_id message_id ''Failed to crop image. Please try again.'' None],
         disk = w'\<rparr>)"
  unfolding process_crop_def using assms by (rule failing_handler)

lemma process_remove_background_fails:
  assumes "tg (events r) (Edit_message chat_id message_id ''Removing background with AI... Please wait.'' None)"
    and "op_remove_background proc p (disk r) = (Inl e, w')"
  shows "process_remove_background tg proc chat_id message_id p r
     = (if tg (events r @ [Edit_message chat_id message_id ''Removing background with AI... Please wait.'' None,
                           Invoke Op_remove_background p])
              (Edit_message chat_id message_id ''Failed to remove background. Please try again.'' None)
        then Inr () else Inl RequestException,
        \<lparr>events = events r @ [Edit_message chat_id message_id ''Removing background with AI... Please wait.'' None,
                               Invoke Op_remove_background p,
                               Edit_message chat_id message_id ''Failed to remove background. Please try again.'' None],
         disk = w'\<rparr>)"
  unfolding process_remove_background_def using assms by (rule failing_handler)

lemma process_generate_background_fails:
  assumes "tg (events r) (Edit_message chat_id message_id ''Generating new background with AI... Please wait.'' None)"
    and "op_generate_background proc p (disk r) = (Inl e, w')"
  shows "process_generate_background tg proc chat_id message_id p r
     = (if tg (events r @ [Edit_message chat_id message_id ''Generating new background with AI... Please wait.'' None,
                           Invoke Op_generate_background p])
              (Edit_message chat_id message_id ''Failed to generate background. Please try again.'' None)
        then Inr () else Inl RequestException,
        \<lparr>events = events r @ [Edit_message chat_id message_id ''Generating new background with AI... Please wait.'' None,
                               Invoke Op_generate_background p,
                               Edit_message chat_id message_id ''Failed to generate background. Please try again.'' None],
         disk = w'\<rparr>)"
  unfolding process_generate_background_def using assms by (rule failing_handler)

lemma process_convert_format_fails:
  assumes "format_map action = Some output_format"
    and "tg (events r) (Edit_message chat_id message_id ''Converting format... Please wait.'' None)"
    and "op_convert_format proc p output_format (disk r) = (Inl e, w')"
  shows "process_convert_format tg proc chat_id message_id p action r
     = (if tg (events r @ [Edit_message chat_id message_id ''Converting format... Please wait.'' None,
                           Invoke (Op_convert output_format) p])
              (Edit_message chat_id message_id ''Failed to convert format. Please try again.'' None)
        then Inr () else Inl RequestException,
        \<lparr>events = events r @ [Edit_message chat_id message_id ''Converting format... Please wait.'' None,
                               Invoke (Op_convert output_format) p,
                               Edit_message chat_id message_id ''Failed to convert format. Please try again.'' None],
         disk = w'\<rparr>)"
  unfolding process_convert_format_def assms(1) option.case
  using assms(2,3) by (rule failing_handler)

lemma process_enhance_resolution_fails:
  assumes "resolution_map action = Some target_resolution"
    and "tg (events r) (Edit_message chat_id message_id ''Enhancing image quality... Please wait.'' None)"
    and "op_enhance_quality proc p target_resolution (disk r) = (Inl e, w')"
  shows "process_enhance_resolution tg proc chat_id message_id p action r
     = (if tg (events r @ [Edit_message chat_id message_id ''Enhancing image quality... Please wait.'' None,
                           Invoke (Op_enhance target_resolution) p])
              (Edit_message chat_id message_id ''Failed to enhance quality. Please try again.'' None)
        then Inr () else Inl RequestException,
        \<lparr>events = events r @ [Edit_message chat_id message_id ''Enhancing image quality... Please wait.'' None,
                               Invoke (Op_enhance target_resolution) p,
                               Edit_message chat_id message_id ''Failed to enhance quality. Please try again.'' None],
         disk = w'\<rparr>)"
  unfolding process_enhance_resolution_def assms(1) option.case
  using assms(2,3) by (rule failing_handler)


lemma leaf_action_menus:
  "leaf_action ''resize'' = None" "leaf_action ''crop'' = None"
  "leaf_action ''enhance'' = None" "leaf_action ''convert'' = None"
  by (simp_all add: leaf_action_def starts_with_def)

lemma dispatch_fails:
  assumes leaf: "leaf_action action = Some (oper, progress, failure)"
    and acc: "tg (events r) (Edit_message chat_id message_id progress None)"
    and fails: "run_operation proc oper p (disk r) = (Inl e, w')"
  shows "dispatch tg proc chat_id message_id p action r
     = (if tg (events r @ [Edit_message chat_id message_id progress None, Invoke oper p])
              (Edit_message chat_id message_id failure None)
        then Inr () else Inl RequestException,
        \<lparr>events = events r @ [Edit_message chat_id message_id progress None, Invoke oper p,
                               Edit_message chat_id message_id failure None],
         disk = w'\<rparr>)"
proof -
  let ?target = "\<lambda>progress oper failure.
      (if tg (events r @ [Edit_message chat_id message_id progress None, Invoke oper p])
              (Edit_message chat_id message_id failure None)
        then Inr () else Inl RequestException,
        \<lparr>events = events r @ [Edit_message chat_id message_id progress None, Invoke oper p,
                               Edit_message chat_id message_id failure None],
         disk = w'\<rparr>)"
  have n1: "action \<noteq> ''resize''"
    using leaf leaf_action_menus by auto
  show ?thesis
  proof (cases "starts_with action ''resize_''")
    case True
    from leaf n1 True obtain width height where sz: "size_map action = Some (width, height)"
      and eqs: "oper = Op_resize width height" "progress = ''Resizing image... Please wait.''"
        "failure = ''Failed to resize image. Please try again.''"
      by (auto simp add: leaf_action_def split: option.splits)
    have "dispatch tg proc chat_id message_id p action r
        = process_resize tg proc chat_id message_id p action r"
      using n1 True by (simp add: dispatch_def)
    then show ?thesis
      using process_resize_fails [OF sz, of tg r chat_id message_id proc p e w'] acc fails
      unfolding eqs run_operation_def by simp
  next
    case n2: False
    have n3: "action \<noteq> ''crop''"
      using leaf leaf_action_menus by auto
    show ?thesis
    proof (cases "starts_with action ''crop_''")
      case True
      from leaf n1 n2 n3 True have eqs: "oper = Op_crop (remove_all ''crop_'' action)"
        "progress = ''Cropping image... Please wait.''"
        "failure = ''Failed to crop image. Please try again.''"
        by (simp_all add: leaf_action_def)
      have "dispatch tg proc chat_id message_id p action r
          = process_crop tg proc chat_id message_id p action r"
        using n1 n2 n3 True by (simp add: dispatch_def)
      then show ?thesis
        using process_crop_fails [of tg r chat_id message_id proc p action e w'] acc fails
        unfolding eqs run_operation_def by simp
    next
      case n4: False
      show ?thesis
      proof (cases "action = ''remove_bg''")
        case True
        from leaf n1 n2 n3 n4 True have eqs: "oper = Op_remove_background"
          "progress = ''Removing background with AI... Please wait.''"
          "failure = ''Failed to remove background. Please try again.''"
          by (simp_all add: leaf_action_def)
        have "dispatch tg proc chat_id message_id p action r
            = process_remove_background tg proc chat_id message_id p r"
          using n1 n2 n3 n4 True by (simp add: dispatch_def)
        then show ?thesis
          using process_remove_background_fails [of tg r chat_id message_id proc p e w'] acc fails
          unfolding eqs run_operation_def by simp
      next
        case n5: False
        show ?thesis
        proof (cases "action = ''generate_bg''")
          case True
          from leaf n1 n2 n3 n4 n5 True have eqs: "oper = Op_generate_background"
            "progress = ''Generating new background with AI... Please wait.''"
            "failure = ''Failed to generate background. Please try again.''"
            by (simp_all add: leaf_action_def)
          have "dispatch tg proc chat_id message_id p action r
              = process_generate_background tg proc chat_id message_id p r"
            using n1 n2 n3 n4 n5 True by (simp add: dispatch_def)
          then show ?thesis
            using process_generate_background_fails [of tg r chat_id message_id proc p e w']
              acc fails
            unfolding eqs run_operation_def by simp
        next
          case n6: False
          have n7: "action \<noteq> ''enhance''" and n8: "action \<noteq> ''convert''"
            using leaf leaf_action_menus by auto
          show ?thesis
          proof (cases "starts_with action ''convert_''")
            case True
            from leaf n1 n2 n3 n4 n5 n6 n7 n8 True obtain output_format
              where fm: "format_map action = Some output_format"
                and eqs: "oper = Op_convert output_format"
                  "progress = ''Converting format... Please wait.''"
                  "failure = ''Failed to convert format. Please try again.''"
              by (auto simp add: leaf_action_def split: option.splits)
            have "dispatch tg proc chat_id message_id p action r
                = process_convert_format tg proc chat_id message_id p action r"
              using n1 n2 n3 n4 n5 n6 n7 n8 True by (simp add: dispatch_def)
            then show ?thesis
              using process_convert_format_fails [OF fm, of tg r chat_id message_id proc p e w']
                acc fails
              unfolding eqs run_operation_def by simp
          next
            case n9: False
            have en: "starts_with action ''enhance_''"
              using leaf n1 n2 n3 n4 n5 n6 n7 n8 n9
              by (simp add: leaf_action_def split: if_splits)
            from leaf n1 n2 n3 n4 n5 n6 n7 n8 n9 en obtain target_resolution
              where rm: "resolution_map action = Some target_resolution"
                and eqs: "oper = Op_enhance target_resolution"
                  "progress = ''Enhancing image quality... Please wait.''"
                  "failure = ''Failed to enhance quality. Please try again.''"
              by (auto simp add: leaf_action_def split: option.splits)
            have "dispatch tg proc chat_id message_id p action r
                = process_enhance_resolution tg proc chat_id message_id p action r"
              using n1 n2 n3 n4 n5 n6 n7 n8 n9 en by (simp add: dispatch_def)
            then show ?thesis
              using process_enhance_resolution_fails
                [OF rm, of tg r chat_id message_id proc p e w'] acc fails
              unfolding eqs run_operation_def by simp
          qed
        qed
      qed
    qed
  qed
qed

lemma resize_mobile_2000_1: "ai_resize_dims 2000 1 720 1280 = Inr (720, 0)"
  by code_simp

section \<open>Claims\<close>

text \<open>
  C1 at the 4K button, a user whose stored path names a file that is gone, and Telegram
  accepting every request. SimpleTelegramBot.handle\_callback\_query tests only that the
  user has a stored path: it calls resize\_image on the missing file, which raises, and
  shows the failure notice of the resize handler. The handler of the webhook server
  tests the file, shows ``Photo expired. Please send a new photo.'' and calls no
  operation.
\<close>

theorem simple_bot_dispatches_without_file:
  "events (snd (handle_callback_query always_ok (ai_processor quiet_env no_enhance)
       \<lparr>user_photos = Some (\<lambda>u. if u = 7 then Some ''uploads/temp_7_abc.jpg'' else None)\<rparr>
       (press ''resize_4k'') \<lparr>events = [], disk = empty_disk\<rparr>))
     = [Answer_callback ''q1'',
        Edit_message 100 55 ''Resizing image... Please wait.'' None,
        Invoke (Op_resize 3840 2160) ''uploads/temp_7_abc.jpg'',
        Edit_message 100 55 ''Failed to resize image. Please try again.'' None]
   \<and> events (wh_handle_callback_query always_ok (ai_processor quiet_env no_enhance)
       (\<lambda>u. if u = 7 then Some ''uploads/temp_7_abc.jpg'' else None)
       (press ''resize_4k'') \<lparr>events = [], disk = empty_disk\<rparr>)
     = [Answer_callback ''q1'',
        Edit_message 100 55 ''Photo expired. Please send a new photo.'' None]"
  by code_simp

text \<open>
  C2, as amended. For every input path that names an image Pillow opens (with at least
  one pixel), remove\_background\_removebg returns the path of a file that exists, also
  when the credential is absent or the request raises or returns a status other than 200:
  in those cases the result is that of the local method, an RGBA image of the input's
  size, and the local method does not raise for such an input.
\<close>

theorem remove_background_falls_back:
  assumes "files w input_path = Some (Image_file img)"
    and "1 \<le> im_width img" "1 \<le> im_height img"
  shows "(\<exists>out w'. remove_background_local env input_path w = (Inr out, w')
            \<and> files w' out = Some (Image_file (pil_convert img Mode_RGBA)))
     \<and> (\<exists>out w'. remove_background_removebg env input_path w = (Inr out, w')
            \<and> files w' out \<noteq> None
            \<and> (falsy (removebg_api_key env) \<or> remote_failed (removebg_service env (Image_file img))
                 \<longrightarrow> files w' out = Some (Image_file (pil_convert img Mode_RGBA))
                   \<and> last (calls w') = Call_remove_background_local input_path))"
proof -
  from remove_background_local_ok[OF assms, of env]
  have a: "\<exists>out w'. remove_background_local env input_path w = (Inr out, w')
            \<and> files w' out = Some (Image_file (pil_convert img Mode_RGBA))" by blast
  from remove_background_removebg_ok[OF assms, of env]
  obtain out w' where r: "remove_background_removebg env input_path w = (Inr out, w')"
    "falsy (removebg_api_key env) \<or> remote_failed (removebg_service env (Image_file img))
          \<longrightarrow> files w' out = Some (Image_file (pil_convert img Mode_RGBA))
            \<and> last (calls w') = Call_remove_background_local input_path" by blast
  from remove_background_removebg_out[OF r(1)] have "files w' out \<noteq> None" by simp
  with a r show ?thesis by blast
qed

text \<open>The theorem at a 640 x 480 photo, without a credential.\<close>

theorem remove_background_falls_back_witness:
  "(\<exists>out w'. remove_background_local quiet_env ''uploads/photo.jpg''
              (one_file ''uploads/photo.jpg'' (Image_file (rgb_image 640 480))) = (Inr out, w')
            \<and> files w' out = Some (Image_file (pil_convert (rgb_image 640 480) Mode_RGBA)))
     \<and> (\<exists>out w'. remove_background_removebg quiet_env ''uploads/photo.jpg''
              (one_file ''uploads/photo.jpg'' (Image_file (rgb_image 640 480))) = (Inr out, w')
            \<and> files w' out \<noteq> None
            \<and> files w' out = Some (Image_file (pil_convert (rgb_image 640 480) Mode_RGBA))
            \<and> last (calls w') = Call_remove_background_local ''uploads/photo.jpg'')"
  using remove_background_falls_back[of "one_file ''uploads/photo.jpg'' (Image_file (rgb_image 640 480))"
      "''uploads/photo.jpg''" "rgb_image 640 480" quiet_env]
  by (simp add: one_file_def rgb_image_def quiet_env_def falsy_def)

text \<open>
  C2 as stated fails: for a path whose file is gone the local method raises (its handler
  re-raises), and so does remove\_background\_removebg without a credential.
\<close>

theorem remove_background_raises_without_file:
  "fst (remove_background_local quiet_env ''uploads/photo.jpg'' empty_disk) = Inl FileNotFoundError
   \<and> fst (remove_background_removebg quiet_env ''uploads/photo.jpg'' empty_disk) = Inl FileNotFoundError"
  by code_simp







text \<open>
  C5 (the code at the failing input). The crop menu offers ``Portrait (9:16)'', and
  SimpleImageProcessor crops a portrait to 9:16, but AIImageProcessor.smart\_crop uses the
  ratio 3/4: a 1080 x 1920 photo, already 9:16, is cut to the box (0, 240, 1080, 1680),
  which is 1080 x 1440.
\<close>

theorem ai_portrait_crop_is_3_by_4:
  "ai_crop_box ''portrait'' 1080 1920 = Inr (0, 240, 1080, 1680)
   \<and> simple_crop_box ''portrait'' 1080 1920 = (0, 0, 1080, 1920)"
  by code_simp

text \<open>
  C6 (the code at the failing input). AIImageProcessor.convert\_format converts only the
  modes RGBA and P before it saves as JPEG: a grey image with an alpha channel (mode LA)
  reaches the encoder as it is, and the conversion raises. SimpleImageProcessor.convert\_format
  converts LA too and saves an RGB image.
\<close>

theorem ai_convert_jpeg_rejects_la:
  "fst (ai_convert_format quiet_env ''uploads/photo.png'' ''jpeg''
         (one_file ''uploads/photo.png''
            (Image_file \<lparr>im_mode = Mode_LA, im_width = 100, im_height = 100\<rparr>)))
     = Inl (OSError ''cannot write mode LA as JPEG'')
   \<and> fst (simple_convert_format quiet_env ''uploads/photo.png'' ''jpeg''
         (one_file ''uploads/photo.png''
            (Image_file \<lparr>im_mode = Mode_LA, im_width = 100, im_height = 100\<rparr>)))
     = Inr ''processed/photo_converted.jpeg''
   \<and> files (snd (simple_convert_format quiet_env ''uploads/photo.png'' ''jpeg''
         (one_file ''uploads/photo.png''
            (Image_file \<lparr>im_mode = Mode_LA, im_width = 100, im_height = 100\<rparr>))))
         ''processed/photo_converted.jpeg''
     = Some (Image_file (rgb_image 100 100))"
  by code_simp







text \<open>
  C9. A button of a leaf handler of SimpleTelegramBot is pressed (\<open>leaf_action\<close> gives its
  operation and its two texts), the user has a stored photo, Telegram accepts the answer
  to the callback and the progress text, and the operation raises. Then
  handle\_callback\_query makes these requests and no other: the answer, the edit to the
  progress text, one call of the operation, and the edit of the status message to the
  failure notice of the handler. The operation is called once, the record of the stored
  photos is returned as it was, and the disk is as the operation left it. Only when Telegram
  rejects the failure notice does the outer handler add one more edit, to
  ``An error occurred. Please try again.''
\<close>

theorem failed_operation_is_reported:
  assumes leaf: "leaf_action (cq_data cq) = Some (oper, progress, failure)"
    and st: "user_photos self = Some photos" "photos (cq_from cq) = Some photo_path"
    and answered: "tg (events r) (Answer_callback (cq_id cq))"
    and acc: "tg (events r @ [Answer_callback (cq_id cq)])
                (Edit_message (cq_chat cq) (cq_message cq) progress None)"
    and fails: "run_operation proc oper photo_path (disk r) = (Inl e, w')"
  shows "handle_callback_query tg proc self cq r =
     (self,
      \<lparr>events = events r @
         [Answer_callback (cq_id cq),
          Edit_message (cq_chat cq) (cq_message cq) progress None,
          Invoke oper photo_path,
          Edit_message (cq_chat cq) (cq_message cq) failure None] @
         (if tg (events r @ [Answer_callback (cq_id cq),
                             Edit_message (cq_chat cq) (cq_message cq) progress None,
                             Invoke oper photo_path])
                (Edit_message (cq_chat cq) (cq_message cq) failure None)
             \<or> cq_chat cq = 0 \<or> cq_message cq = 0
          then []
          else [Edit_message (cq_chat cq) (cq_message cq)
                  ''An error occurred. Please try again.'' None]),
       disk = w'\<rparr>)"
proof -
  define r1 where "r1 = r\<lparr>events := events r @ [Answer_callback (cq_id cq)]\<rparr>"
  have a: "api_request tg (Answer_callback (cq_id cq)) r = (Inr (), r1)"
    using answered by (simp add: api_request_def r1_def)
  have hp: "has_photo self (cq_from cq)" "the (the (user_photos self) (cq_from cq)) = photo_path"
    using st by (simp_all add: has_photo_def)
  have d: "dispatch tg proc (cq_chat cq) (cq_message cq) photo_path (cq_data cq) r1
     = (if tg (events r1 @ [Edit_message (cq_chat cq) (cq_message cq) progress None,
                            Invoke oper photo_path])
              (Edit_message (cq_chat cq) (cq_message cq) failure None)
        then Inr () else Inl RequestException,
        \<lparr>events = events r1 @ [Edit_message (cq_chat cq) (cq_message cq) progress None,
                                Invoke oper photo_path,
                                Edit_message (cq_chat cq) (cq_message cq) failure None],
         disk = w'\<rparr>)"
    by (rule dispatch_fails [OF leaf]) (use acc fails in \<open>simp_all add: r1_def\<close>)
  have body: "then_do (api_request tg (Answer_callback (cq_id cq)))
           (\<lambda>_. if \<not> has_photo self (cq_from cq) then
                    edit_message_text tg (cq_chat cq) (cq_message cq)
                      ''Please send a photo first!'' None
                  else
                    dispatch tg proc (cq_chat cq) (cq_message cq)
                      (the (the (user_photos self) (cq_from cq))) (cq_data cq)) r
     = dispatch tg proc (cq_chat cq) (cq_message cq) photo_path (cq_data cq) r1"
    by (simp add: then_do_def a hp)
  show ?thesis
    unfolding handle_callback_query_def try_except_def body d
    by (simp add: done_ok_def edit_message_text_def api_request_def r1_def)
qed

text \<open>
  The theorem at the mobile button and a stored 2000 x 1 photo, whose resize raises.
\<close>

theorem failed_operation_is_reported_witness:
  "handle_callback_query always_ok (ai_processor quiet_env no_enhance)
     \<lparr>user_photos = Some (\<lambda>u. if u = 7 then Some ''uploads/temp_7_abc.jpg'' else None)\<rparr>
     (press ''resize_mobile'')
     \<lparr>events = [],
      disk = one_file ''uploads/temp_7_abc.jpg'' (Image_file (rgb_image 2000 1))\<rparr>
   = (\<lparr>user_photos = Some (\<lambda>u. if u = 7 then Some ''uploads/temp_7_abc.jpg'' else None)\<rparr>,
      \<lparr>events = [Answer_callback ''q1'',
                 Edit_message 100 55 ''Resizing image... Please wait.'' None,
                 Invoke (Op_resize 720 1280) ''uploads/temp_7_abc.jpg'',
                 Edit_message 100 55 ''Failed to resize image. Please try again.'' None],
       disk = one_file ''uploads/temp_7_abc.jpg'' (Image_file (rgb_image 2000 1))\<rparr>)"
  using failed_operation_is_reported
    [where cq = "press ''resize_mobile''" and oper = "Op_resize 720 1280"
       and progress = "''Resizing image... Please wait.''"
       and failure = "''Failed to resize image. Please try again.''"
       and self = "\<lparr>user_photos = Some (\<lambda>u. if u = 7 then Some ''uploads/temp_7_abc.jpg'' else None)\<rparr>"
       and photos = "\<lambda>u. if u = 7 then Some ''uploads/temp_7_abc.jpg'' else None"
       and photo_path = "''uploads/temp_7_abc.jpg''" and tg = always_ok
       and r = "\<lparr>events = [],
           disk = one_file ''uploads/temp_7_abc.jpg'' (Image_file (rgb_image 2000 1))\<rparr>"
       and proc = "ai_processor quiet_env no_enhance"
       and e = "ValueError ''height and width must be > 0''"
       and w' = "one_file ''uploads/temp_7_abc.jpg'' (Image_file (rgb_image 2000 1))"]
    resize_mobile_2000_1
  by (simp add: press_def leaf_action_def starts_with_def size_map_def always_ok_def
      run_operation_def ai_processor_def ai_resize_image_def pil_open_def one_file_def
      rgb_image_def pil_resize_def)




end
